theory Spec2Isabelle
  imports Main "HOL-Library.AList"
begin

section \<open>Conventions of the embedding\<close>

text \<open>
  The repository is a FastAPI backend: route handlers over an SQLAlchemy session, JWT
  helpers built on python-jose and password checks built on passlib. Each handler is
  embedded as a HOL function of the same name (prefixed with its module where two
  modules define the same name).

  \<^item> A raised exception is a value of type \<open>exn\<close>; a handler returns \<open>exn + 'a\<close>.
  \<^item> The session is the record \<open>db\<close> of the two tables; a handler that writes returns the
    store after its last \<open>commit\<close>, and the store it was given after a \<open>rollback\<close> or
    an exception raised before the commit.
  \<^item> Names are resolved as the imports intend them: \<open>jwt.encode\<close> and \<open>jwt.decode\<close> are
    python-jose's, a parameter declared with \<open>Depends(...)\<close> holds the resolved value.
  \<^item> Third-party calls (python-jose, passlib, Python's \<open>str\<close> on an exception) and objects
    that are injected (\<open>auth_service\<close>) are parameters of the functions that use them.
  \<^item> \<open>datetime\<close> values are seconds on one integer time line; the clock reading of a
    handler is its parameter \<open>now\<close> or \<open>today\<close>.
\<close>

section \<open>Values, exceptions, rows\<close>

text \<open>Values of a Python dict that is encoded into a token or returned as a JSON body.\<close>

datatype jval = JNull | JStr string | JInt int

type_synonym pydict = "(string \<times> jval) list"

type_synonym datetime = int

definition timedelta_days :: "int \<Rightarrow> int" where
  "timedelta_days n = n * 86400"

definition timedelta_minutes :: "int \<Rightarrow> int" where
  "timedelta_minutes n = n * 60"

datatype exn =
    HTTPException (status_code: nat) (detail: string) (headers: "(string \<times> string) list option")
  | JWTError
  | KeyError string
  | AttributeError string
  | IntegrityError
  | UnknownHashError

text \<open>
  Modelled from the spec: \<open>src/db/models.py\<close> (the ORM classes \<open>User\<close> and \<open>Contact\<close>) is
  not among the sources. The rows carry the fields of the spec's data model and the
  attributes the handlers read. The spec's single flag "is_verified/confirmed" is the
  field \<open>confirmed\<close> (the source spells it \<open>is_verified\<close> in \<open>auth_procedures.py\<close> and
  \<open>confirmed\<close> in \<open>routes/auth.py\<close> and \<open>repository/users.py\<close>); the stored hash is the
  field \<open>password\<close> (spelled \<open>hashed_password\<close> in \<open>get_user\<close>).
\<close>

record User =
  id :: int
  username :: "string option"
  email :: string
  password :: string
  refresh_token :: "string option"
  confirmed :: bool
  avatar :: "string option"

record Contact =
  id :: int
  first_name :: string
  last_name :: string
  email :: string
  phone_number :: string
  birth_date :: datetime
  additional_data :: "string option"

text \<open>The pydantic model \<open>UserContact\<close> of \<open>repository/contacts.py\<close> and \<open>router_endpoints.py\<close>.\<close>

record UserContact =
  contact_id :: int
  first_name :: string
  last_name :: string
  email :: string
  phone_number :: string
  birth_date :: datetime
  additional_info :: "string option"

record db =
  users :: "User list"
  contacts :: "Contact list"

section \<open>The session operations the handlers use\<close>

text \<open>
  \<open>session.query(Contact).get(pk)\<close> and \<open>query.filter(Contact.id == pk).first()\<close>: the first
  row with that primary key, or \<open>None\<close>.
\<close>

definition query_contact :: "int \<Rightarrow> db \<Rightarrow> Contact option" where
  "query_contact pk session = find (\<lambda>c. Contact.id c = pk) (contacts session)"

text \<open>
  \<open>session.add(row); session.commit()\<close>: the INSERT violates the primary key when a row
  with the same id is stored, and the commit raises.
\<close>

definition add_contact :: "Contact \<Rightarrow> db \<Rightarrow> exn + db" where
  "add_contact row session =
     (if Contact.id row \<in> set (map Contact.id (contacts session)) then Inl IntegrityError
      else Inr (session\<lparr>contacts := contacts session @ [row]\<rparr>))"

text \<open>\<open>session.delete(row); session.commit()\<close>: DELETE of the rows with the row's key.\<close>

definition delete_row :: "Contact \<Rightarrow> db \<Rightarrow> db" where
  "delete_row row session =
     session\<lparr>contacts := filter (\<lambda>c. Contact.id c \<noteq> Contact.id row) (contacts session)\<rparr>"

text \<open>Attribute assignments on a loaded row followed by \<open>commit\<close>: UPDATE by key.\<close>

definition assign_contact :: "int \<Rightarrow> UserContact \<Rightarrow> db \<Rightarrow> db" where
  "assign_contact pk updated_contact session =
     session\<lparr>contacts :=
       map (\<lambda>c. if Contact.id c = pk
                then c\<lparr>Contact.first_name := UserContact.first_name updated_contact,
                       Contact.last_name := UserContact.last_name updated_contact,
                       Contact.email := UserContact.email updated_contact,
                       Contact.phone_number := UserContact.phone_number updated_contact,
                       Contact.birth_date := UserContact.birth_date updated_contact,
                       Contact.additional_data := UserContact.additional_info updated_contact\<rparr>
                else c)
           (contacts session)\<rparr>"

section \<open>Contact handlers (\<open>repository/contacts.py\<close>, \<open>routes/router_endpoints.py\<close>)\<close>

definition contact_of :: "UserContact \<Rightarrow> Contact" where
  "contact_of contact =
     \<lparr>Contact.id = contact_id contact,
      first_name = UserContact.first_name contact,
      last_name = UserContact.last_name contact,
      email = UserContact.email contact,
      phone_number = UserContact.phone_number contact,
      birth_date = UserContact.birth_date contact,
      additional_data = additional_info contact\<rparr>"

text \<open>
  \<open>create_new_contact\<close>: add and commit inside \<open>try\<close>; any exception rolls back and becomes
  a 500 whose detail embeds \<open>str(e)\<close> (the parameter \<open>str\<close>).
\<close>

definition contacts_create_new_contact ::
  "(exn \<Rightarrow> string) \<Rightarrow> UserContact \<Rightarrow> db \<Rightarrow> (exn + UserContact) \<times> db" where
  "contacts_create_new_contact str contact session =
     (case add_contact (contact_of contact) session of
        Inl e \<Rightarrow> (Inl (HTTPException 500 (''Internal Server Error: '' @ str e) None), session)
      | Inr session' \<Rightarrow> (Inr contact, session'))"

definition contacts_get_contact :: "int \<Rightarrow> db \<Rightarrow> exn + Contact" where
  "contacts_get_contact cid session =
     (case query_contact cid session of
        None \<Rightarrow> Inl (HTTPException 404 ''Contact not found'' None)
      | Some contact \<Rightarrow> Inr contact)"

text \<open>
  The body of the \<open>try\<close> block of \<open>update_contact\<close>: the 404 is raised inside it.
\<close>

definition update_contact_try :: "int \<Rightarrow> UserContact \<Rightarrow> db \<Rightarrow> exn + db" where
  "update_contact_try cid updated_contact session =
     (case query_contact cid session of
        None \<Rightarrow> Inl (HTTPException 404 ''Contact not found'' None)
      | Some db_contact \<Rightarrow> Inr (assign_contact cid updated_contact session))"

text \<open>
  \<open>except Exception as e\<close> catches every exception of the block, the \<open>HTTPException\<close>
  raised for a missing row included, rolls back and raises a 500.
\<close>

definition contacts_update_contact ::
  "(exn \<Rightarrow> string) \<Rightarrow> int \<Rightarrow> UserContact \<Rightarrow> db \<Rightarrow> (exn + pydict) \<times> db" where
  "contacts_update_contact str cid updated_contact session =
     (case update_contact_try cid updated_contact session of
        Inl e \<Rightarrow> (Inl (HTTPException 500 (''Internal Server Error: '' @ str e) None), session)
      | Inr session' \<Rightarrow> (Inr [(''message'', JStr ''Success!'')], session'))"

text \<open>
  \<open>router_endpoints.update_contact\<close> has the same body behind the \<open>get_active_user\<close>
  dependency, whose value it does not read.
\<close>

definition router_endpoints_update_contact ::
  "(exn \<Rightarrow> string) \<Rightarrow> int \<Rightarrow> UserContact \<Rightarrow> db \<Rightarrow> User \<Rightarrow> (exn + pydict) \<times> db" where
  "router_endpoints_update_contact str cid updated_contact session current_user =
     (case update_contact_try cid updated_contact session of
        Inl e \<Rightarrow> (Inl (HTTPException 500 (''Internal Server Error: '' @ str e) None), session)
      | Inr session' \<Rightarrow> (Inr [(''message'', JStr ''Success!'')], session'))"

definition contacts_delete_contact :: "int \<Rightarrow> db \<Rightarrow> (exn + pydict) \<times> db" where
  "contacts_delete_contact cid session =
     (case query_contact cid session of
        None \<Rightarrow> (Inl (HTTPException 404 ''Contact not found'' None), session)
      | Some db_contact \<Rightarrow> (Inr [(''message'', JStr ''Success!'')], delete_row db_contact session))"

text \<open>
  \<open>get_upcoming_birthdays\<close>: \<open>today = datetime.today()\<close>, \<open>end_date = today + 7 days\<close>, all
  rows with \<open>today \<le> birth_date \<le> end_date\<close>.
\<close>

definition get_upcoming_birthdays :: "datetime \<Rightarrow> db \<Rightarrow> User \<Rightarrow> Contact list" where
  "get_upcoming_birthdays today session current_user =
     (let end_date = today + timedelta_days 7
      in filter (\<lambda>c. Contact.birth_date c \<ge> today \<and> Contact.birth_date c \<le> end_date)
                (contacts session))"

section \<open>Settings and third-party libraries\<close>

text \<open>\<open>auth_settings.py\<close>: the signing secret and algorithm read from the environment.\<close>

record auth_settings =
  SECRET_KEY :: string
  ALGORITHM :: string

text \<open>
  python-jose. \<open>jwt_encode claims key algorithm\<close> is \<open>jwt.encode\<close>;
  \<open>jwt_decode token key algorithms now\<close> is \<open>jwt.decode\<close> called when the clock reads
  \<open>now\<close>: it returns the claims, or raises \<open>JWTError\<close> for a bad signature, an algorithm
  outside \<open>algorithms\<close> or an expired token.
\<close>

record jose =
  jwt_encode :: "pydict \<Rightarrow> string \<Rightarrow> string \<Rightarrow> string"
  jwt_decode :: "string \<Rightarrow> string \<Rightarrow> string list \<Rightarrow> datetime \<Rightarrow> exn + pydict"

text \<open>passlib's \<open>CryptContext\<close>: \<open>pwd_context.verify(secret, hash)\<close> and \<open>pwd_context.hash\<close>.\<close>

record CryptContext =
  verify :: "string \<Rightarrow> string \<Rightarrow> exn + bool"
  hash :: "string \<Rightarrow> string"

text \<open>
  The object \<open>auth_service\<close> that the handlers of \<open>routes/auth.py\<close> receive as a parameter;
  no class of the sources provides all of its methods.
\<close>

record auth_service =
  verify_password :: "string \<Rightarrow> string \<Rightarrow> exn + bool"
  get_password_hash :: "string \<Rightarrow> string"
  create_access_token :: "pydict \<Rightarrow> string"
  create_refresh_token :: "pydict \<Rightarrow> string"
  get_email_from_token :: "string \<Rightarrow> exn + string"

record OAuth2PasswordRequestForm =
  username :: string
  password :: string

section \<open>Python idioms\<close>

text \<open>\<open>d[k]\<close> raises \<open>KeyError\<close> for a missing key; \<open>d.get(k)\<close> returns \<open>None\<close>.\<close>

definition subscript :: "pydict \<Rightarrow> string \<Rightarrow> exn + jval" where
  "subscript d k = (case map_of d k of None \<Rightarrow> Inl (KeyError k) | Some v \<Rightarrow> Inr v)"

definition dict_get :: "pydict \<Rightarrow> string \<Rightarrow> jval" where
  "dict_get d k = (case map_of d k of None \<Rightarrow> JNull | Some v \<Rightarrow> v)"

text \<open>
  \<open>try: block except JWTError: raise h\<close>: only a \<open>JWTError\<close> of the block is replaced by
  \<open>h\<close>; every other exception of the block propagates as it is.
\<close>

definition except_JWTError :: "exn + 'a \<Rightarrow> exn \<Rightarrow> exn + 'a" where
  "except_JWTError block h =
     (case block of Inl e \<Rightarrow> (if e = JWTError then Inl h else Inl e) | Inr v \<Rightarrow> Inr v)"

section \<open>Token helpers (\<open>routes/jwt.py\<close>, \<open>services/email_token.py\<close>)\<close>

definition REFRESH_TOKEN_EXPIRE_DAYS :: int where
  "REFRESH_TOKEN_EXPIRE_DAYS = 7"

definition ACCESS_TOKEN_EXPIRE_MINUTES :: int where
  "ACCESS_TOKEN_EXPIRE_MINUTES = 20"

text \<open>
  The exception every function of \<open>jwt.py\<close> and \<open>auth_procedures.py\<close> builds under the
  name \<open>credentials_exception\<close>.
\<close>

definition credentials_exception :: exn where
  "credentials_exception =
     HTTPException 401 ''Invalid credentials'' (Some [(''WWW-Authenticate'', ''Bearer'')])"

text \<open>
  \<open>create_access_token\<close>: \<open>expires_delta\<close> is a number of seconds or \<open>None\<close>; a zero
  \<open>timedelta\<close> is falsy and takes the default of 15 minutes too.
\<close>

definition create_access_token ::
  "jose \<Rightarrow> auth_settings \<Rightarrow> datetime \<Rightarrow> pydict \<Rightarrow> int option \<Rightarrow> string" where
  "create_access_token lib cfg now data expires_delta =
     (let expire = (case expires_delta of
                      None \<Rightarrow> now + timedelta_minutes 15
                    | Some d \<Rightarrow> if d \<noteq> 0 then now + d else now + timedelta_minutes 15);
          to_encode = AList.update ''exp'' (JInt expire) data
      in jwt_encode lib to_encode (SECRET_KEY cfg) (ALGORITHM cfg))"

definition create_refresh_token :: "jose \<Rightarrow> auth_settings \<Rightarrow> datetime \<Rightarrow> pydict \<Rightarrow> string" where
  "create_refresh_token lib cfg now data =
     (let expire = now + timedelta_days REFRESH_TOKEN_EXPIRE_DAYS
      in jwt_encode lib (AList.update ''exp'' (JInt expire) data) (SECRET_KEY cfg) (ALGORITHM cfg))"

definition verify_token :: "jose \<Rightarrow> auth_settings \<Rightarrow> datetime \<Rightarrow> string \<Rightarrow> exn + pydict" where
  "verify_token lib cfg now token =
     except_JWTError (jwt_decode lib token (SECRET_KEY cfg) [ALGORITHM cfg] now)
       credentials_exception"

text \<open>\<open>EmailTokenManager.get_email_from_token\<close>: decode, then \<open>payload["sub"]\<close>.\<close>

definition email_token_try :: "jose \<Rightarrow> auth_settings \<Rightarrow> datetime \<Rightarrow> string \<Rightarrow> exn + jval" where
  "email_token_try lib cfg now token =
     (case jwt_decode lib token (SECRET_KEY cfg) [ALGORITHM cfg] now of
        Inl e \<Rightarrow> Inl e
      | Inr payload \<Rightarrow> subscript payload ''sub'')"

definition EmailTokenManager_get_email_from_token ::
  "jose \<Rightarrow> auth_settings \<Rightarrow> datetime \<Rightarrow> string \<Rightarrow> exn + jval" where
  "EmailTokenManager_get_email_from_token lib cfg now token =
     except_JWTError (email_token_try lib cfg now token)
       (HTTPException 422 ''Invalid token for email verification'' None)"

section \<open>Authentication procedures (\<open>auth_files/auth_procedures.py\<close>)\<close>

text \<open>\<open>query(User).filter(User.email == email).first()\<close> for an \<open>email\<close> read from a token.\<close>

definition first_user_with :: "jval \<Rightarrow> db \<Rightarrow> User option" where
  "first_user_with email_claim session =
     find (\<lambda>u. JStr (User.email u) = email_claim) (users session)"

definition get_user ::
  "CryptContext \<Rightarrow> string \<Rightarrow> string \<Rightarrow> db \<Rightarrow> exn + User option" where
  "get_user pwd_context email_arg password_arg session =
     (case first_user_with (JStr email_arg) session of
        None \<Rightarrow> Inr None
      | Some user \<Rightarrow>
          (case verify pwd_context password_arg (User.password user) of
             Inl e \<Rightarrow> Inl e
           | Inr ok \<Rightarrow> Inr (if ok then Some user else None)))"

text \<open>
  The \<open>try\<close> block shared by \<open>get_current_user\<close> and \<open>verify_user_email\<close>: decode,
  \<open>email = payload["sub"]\<close>, and the \<open>credentials_exception\<close> for an \<open>email\<close> that is \<open>None\<close>.
\<close>

definition subject_try :: "jose \<Rightarrow> auth_settings \<Rightarrow> datetime \<Rightarrow> string \<Rightarrow> exn + jval" where
  "subject_try lib cfg now token =
     (case jwt_decode lib token (SECRET_KEY cfg) [ALGORITHM cfg] now of
        Inl e \<Rightarrow> Inl e
      | Inr payload \<Rightarrow>
          (case subscript payload ''sub'' of
             Inl e \<Rightarrow> Inl e
           | Inr email_claim \<Rightarrow>
               if email_claim = JNull then Inl credentials_exception else Inr email_claim))"

definition get_current_user ::
  "jose \<Rightarrow> auth_settings \<Rightarrow> datetime \<Rightarrow> string \<Rightarrow> db \<Rightarrow> exn + User" where
  "get_current_user lib cfg now token session =
     (case except_JWTError (subject_try lib cfg now token) credentials_exception of
        Inl e \<Rightarrow> Inl e
      | Inr email_claim \<Rightarrow>
          (case first_user_with email_claim session of
             None \<Rightarrow> Inl credentials_exception
           | Some user \<Rightarrow> Inr user))"

definition get_active_user :: "User option \<Rightarrow> exn + User" where
  "get_active_user current_user =
     (case current_user of
        None \<Rightarrow> Inl (HTTPException 400 ''There is no active user'' None)
      | Some user \<Rightarrow> Inr user)"

text \<open>
  \<open>refresh_access_token\<close>: the block calls \<open>verify_token\<close> and reads \<open>payload.get("sub")\<close>;
  the function has no session parameter.
\<close>

definition refresh_try :: "jose \<Rightarrow> auth_settings \<Rightarrow> datetime \<Rightarrow> string \<Rightarrow> exn + jval" where
  "refresh_try lib cfg now current_token =
     (case verify_token lib cfg now current_token of
        Inl e \<Rightarrow> Inl e
      | Inr payload \<Rightarrow>
          (let sub = dict_get payload ''sub''
           in if sub = JNull then Inl credentials_exception else Inr sub))"

definition refresh_access_token ::
  "jose \<Rightarrow> auth_settings \<Rightarrow> datetime \<Rightarrow> string \<Rightarrow> exn + pydict" where
  "refresh_access_token lib cfg now current_token =
     (case except_JWTError (refresh_try lib cfg now current_token) credentials_exception of
        Inl e \<Rightarrow> Inl e
      | Inr sub \<Rightarrow>
          (let access_token_expires = timedelta_minutes ACCESS_TOKEN_EXPIRE_MINUTES;
               refreshed_token =
                 create_access_token lib cfg now [(''sub'', sub)] (Some access_token_expires)
           in Inr [(''access_token'', JStr refreshed_token), (''token_type'', JStr ''bearer'')]))"

text \<open>Assignment of \<open>True\<close> to the flag of a loaded user followed by \<open>commit\<close>.\<close>

definition set_confirmed :: "User \<Rightarrow> db \<Rightarrow> db" where
  "set_confirmed user session =
     session\<lparr>users := map (\<lambda>u. if User.id u = User.id user then u\<lparr>confirmed := True\<rparr> else u)
                           (users session)\<rparr>"

definition verify_user_email ::
  "jose \<Rightarrow> auth_settings \<Rightarrow> datetime \<Rightarrow> string \<Rightarrow> db \<Rightarrow> (exn + pydict) \<times> db" where
  "verify_user_email lib cfg now token session =
     (case except_JWTError (subject_try lib cfg now token) credentials_exception of
        Inl e \<Rightarrow> (Inl e, session)
      | Inr email_claim \<Rightarrow>
          (case first_user_with email_claim session of
             None \<Rightarrow> (Inl credentials_exception, session)
           | Some user \<Rightarrow>
               (Inr [(''message'', JStr ''Email verification successful!''),
                     (''status_code'', JInt 200)],
                if \<not> confirmed user then set_confirmed user session else session)))"

section \<open>User repository (\<open>repository/users.py\<close>)\<close>

record UserModel =
  username :: string
  email :: string
  password :: string

definition get_user_by_email :: "string \<Rightarrow> db \<Rightarrow> User option" where
  "get_user_by_email email_arg session = find (\<lambda>u. User.email u = email_arg) (users session)"

text \<open>
  \<open>db.add(new_user); db.commit(); db.refresh(new_user)\<close>: the row receives the next key;
  the commit raises when the email, unique in the spec's data model, is already stored.
\<close>

definition next_user_id :: "db \<Rightarrow> int" where
  "next_user_id session = fold max (map User.id (users session)) 0 + 1"

definition add_user :: "User \<Rightarrow> db \<Rightarrow> exn + (User \<times> db)" where
  "add_user row session =
     (if User.email row \<in> set (map User.email (users session)) then Inl IntegrityError
      else (let new_user = row\<lparr>User.id := next_user_id session\<rparr>
            in Inr (new_user, session\<lparr>users := users session @ [new_user]\<rparr>)))"

text \<open>
  \<open>create_user\<close>: the Gravatar lookup is wrapped in \<open>try/except Exception\<close> and leaves
  \<open>avatar = None\<close> when it raises.
\<close>

definition create_user ::
  "(string \<Rightarrow> exn + string) \<Rightarrow> UserModel \<Rightarrow> db \<Rightarrow> exn + (User \<times> db)" where
  "create_user gravatar body session =
     (let avatar_opt = (case gravatar (UserModel.email body) of
                          Inl e \<Rightarrow> None
                        | Inr url \<Rightarrow> Some url);
          new_user = \<lparr>User.id = 0,
                      username = Some (UserModel.username body),
                      email = UserModel.email body,
                      password = UserModel.password body,
                      refresh_token = None,
                      confirmed = False,
                      avatar = avatar_opt\<rparr>
      in add_user new_user session)"

definition update_token :: "User \<Rightarrow> string option \<Rightarrow> db \<Rightarrow> db" where
  "update_token user token session =
     session\<lparr>users := map (\<lambda>u. if User.id u = User.id user then u\<lparr>refresh_token := token\<rparr> else u)
                           (users session)\<rparr>"

text \<open>
  \<open>confirm_email\<close> and \<open>update_avatar\<close> assign to an attribute of the looked-up user
  without testing it: for \<open>None\<close> the assignment raises \<open>AttributeError\<close>.
\<close>

definition confirm_email :: "string \<Rightarrow> db \<Rightarrow> (exn + unit) \<times> db" where
  "confirm_email email_arg session =
     (case get_user_by_email email_arg session of
        None \<Rightarrow> (Inl (AttributeError ''confirmed''), session)
      | Some user \<Rightarrow> (Inr (), set_confirmed user session))"

definition update_avatar :: "string \<Rightarrow> string \<Rightarrow> db \<Rightarrow> (exn + User) \<times> db" where
  "update_avatar email_arg url session =
     (case get_user_by_email email_arg session of
        None \<Rightarrow> (Inl (AttributeError ''avatar''), session)
      | Some user \<Rightarrow>
          (Inr (user\<lparr>avatar := Some url\<rparr>),
           session\<lparr>users := map (\<lambda>u. if User.id u = User.id user then u\<lparr>avatar := Some url\<rparr> else u)
                                 (users session)\<rparr>))"

text \<open>\<open>jwt.update_user_avatar\<close>: lookup by key, 404 when absent.\<close>

definition update_user_avatar :: "int \<Rightarrow> string \<Rightarrow> db \<Rightarrow> (exn + unit) \<times> db" where
  "update_user_avatar uid avatar_url session =
     (case find (\<lambda>u. User.id u = uid) (users session) of
        Some user \<Rightarrow>
          (Inr (),
           session\<lparr>users := map (\<lambda>u. if User.id u = User.id user then u\<lparr>avatar := Some avatar_url\<rparr>
                                       else u)
                                 (users session)\<rparr>)
      | None \<Rightarrow> (Inl (HTTPException 404 ''User not found'' None), session))"

section \<open>Handlers of \<open>routes/auth.py\<close>\<close>

text \<open>
  The handlers receive \<open>repository_users\<close> and \<open>auth_service\<close> as parameters. Calls to
  \<open>repository_users.get_user_by_email\<close> and \<open>repository_users.update_token\<close> are the functions
  of \<open>repository/users.py\<close>. The handler \<open>confirmed_email\<close> calls
  \<open>repository_users.confirmed_email\<close>, a name the repository does not define (its confirming
  function is \<open>confirm_email\<close>): the method is the parameter \<open>repository_confirmed_email\<close> of
  the handler.
\<close>

datatype task = send_email string "string option" string

record RequestEmail =
  email :: string

definition auth_signup ::
  "auth_service \<Rightarrow> (string \<Rightarrow> exn + string) \<Rightarrow> UserModel \<Rightarrow> task list \<Rightarrow> string \<Rightarrow> db
     \<Rightarrow> (exn + (User \<times> string)) \<times> task list \<times> db" where
  "auth_signup svc gravatar body background_tasks base_url session =
     (case get_user_by_email (UserModel.email body) session of
        Some exist_user \<Rightarrow>
          (Inl (HTTPException 409 ''Account already exists'' None), background_tasks, session)
      | None \<Rightarrow>
          (let body' = body\<lparr>UserModel.password := get_password_hash svc (UserModel.password body)\<rparr>
           in case create_user gravatar body' session of
                Inl e \<Rightarrow> (Inl e, background_tasks, session)
              | Inr (new_user, session') \<Rightarrow>
                  (Inr (new_user, ''User successfully created. Check your email for confirmation.''),
                   background_tasks @ [send_email (User.email new_user) (User.username new_user) base_url],
                   session')))"

definition auth_login ::
  "auth_service \<Rightarrow> OAuth2PasswordRequestForm \<Rightarrow> db \<Rightarrow> (exn + pydict) \<times> db" where
  "auth_login svc body session =
     (case get_user_by_email (OAuth2PasswordRequestForm.username body) session of
        None \<Rightarrow> (Inl (HTTPException 401 ''Invalid email'' None), session)
      | Some user \<Rightarrow>
          if \<not> confirmed user
          then (Inl (HTTPException 401 ''Email not confirmed'' None), session)
          else (case verify_password svc (OAuth2PasswordRequestForm.password body)
                       (User.password user) of
                  Inl e \<Rightarrow> (Inl e, session)
                | Inr ok \<Rightarrow>
                    if \<not> ok then (Inl (HTTPException 401 ''Invalid password'' None), session)
                    else (let access_token =
                                auth_service.create_access_token svc [(''sub'', JStr (User.email user))];
                              refresh_tok =
                                auth_service.create_refresh_token svc [(''sub'', JStr (User.email user))]
                          in (Inr [(''access_token'', JStr access_token),
                                   (''refresh_token'', JStr refresh_tok),
                                   (''token_type'', JStr ''bearer'')],
                              update_token user (Some refresh_tok) session))))"

definition confirmed_email ::
  "auth_service \<Rightarrow> (string \<Rightarrow> db \<Rightarrow> (exn + unit) \<times> db) \<Rightarrow> string \<Rightarrow> db
     \<Rightarrow> (exn + pydict) \<times> db" where
  "confirmed_email svc repository_confirmed_email token session =
     (case get_email_from_token svc token of
        Inl e \<Rightarrow> (Inl e, session)
      | Inr email_arg \<Rightarrow>
          (case get_user_by_email email_arg session of
             None \<Rightarrow> (Inl (HTTPException 400 ''Verification error'' None), session)
           | Some user \<Rightarrow>
               if confirmed user
               then (Inr [(''message'', JStr ''Your email is already confirmed''),
                          (''status_code'', JInt 200)], session)
               else (case repository_confirmed_email email_arg session of
                       (Inl e, session') \<Rightarrow> (Inl e, session')
                     | (Inr u, session') \<Rightarrow>
                         (Inr [(''message'', JStr ''Email confirmed'')], session'))))"

text \<open>\<open>user.confirmed\<close> on the result of \<open>first()\<close>, which is \<open>None\<close> when no row matches.\<close>

definition getattr_confirmed :: "User option \<Rightarrow> exn + bool" where
  "getattr_confirmed user =
     (case user of None \<Rightarrow> Inl (AttributeError ''confirmed'') | Some u \<Rightarrow> Inr (confirmed u))"

text \<open>
  \<open>request_email\<close>: \<open>user.confirmed\<close> is read first, the test \<open>if user\<close> comes after it.
\<close>

definition request_email ::
  "RequestEmail \<Rightarrow> task list \<Rightarrow> string \<Rightarrow> db \<Rightarrow> (exn + pydict) \<times> task list" where
  "request_email body background_tasks base_url session =
     (let user = get_user_by_email (RequestEmail.email body) session
      in case getattr_confirmed user of
           Inl e \<Rightarrow> (Inl e, background_tasks)
         | Inr is_confirmed \<Rightarrow>
             if is_confirmed
             then (Inr [(''message'', JStr ''Your email is already confirmed''),
                        (''status_code'', JInt 200)], background_tasks)
             else (Inr [(''message'', JStr ''Check your email for confirmation.'')],
                   (case user of
                      Some u \<Rightarrow> background_tasks @ [send_email (User.email u) (User.username u) base_url]
                    | None \<Rightarrow> background_tasks)))"

section \<open>Handlers of \<open>routes/routes.py\<close>\<close>

definition routes_signup :: "CryptContext \<Rightarrow> User \<Rightarrow> db \<Rightarrow> (exn + pydict \<times> User) \<times> db" where
  "routes_signup pwd_context user session =
     (case first_user_with (JStr (User.email user)) session of
        Some db_user \<Rightarrow>
          (Inl (HTTPException 409 ''User with this email already exists'' None), session)
      | None \<Rightarrow>
          (let hashed_password = hash pwd_context (User.password user);
               db_user = \<lparr>User.id = 0, username = None, email = User.email user,
                          password = hashed_password, refresh_token = None,
                          confirmed = False, avatar = None\<rparr>
           in case add_user db_user session of
                Inl e \<Rightarrow> (Inl e, session)
              | Inr (db_user', session') \<Rightarrow>
                  (Inr ([(''message'', JStr ''User signed up successfully!''),
                         (''status_code'', JInt 201)], db_user'),
                   session')))"

text \<open>
  \<open>routes.login\<close>: \<open>get_user\<close>, the two tokens of \<open>jwt.py\<close>, and the response; no statement
  of the handler writes to the session. (\<open>login_for_access_token\<close> of \<open>auth_procedures.py\<close>
  has the same statements but calls \<open>get_user\<close> without a session; it is not modelled.)
\<close>

definition routes_login ::
  "CryptContext \<Rightarrow> jose \<Rightarrow> auth_settings \<Rightarrow> datetime \<Rightarrow> OAuth2PasswordRequestForm \<Rightarrow> db
     \<Rightarrow> (exn + pydict) \<times> db" where
  "routes_login pwd_context lib cfg now form_data session =
     (case get_user pwd_context (OAuth2PasswordRequestForm.username form_data)
             (OAuth2PasswordRequestForm.password form_data) session of
        Inl e \<Rightarrow> (Inl e, session)
      | Inr None \<Rightarrow> (Inl credentials_exception, session)
      | Inr (Some user) \<Rightarrow>
          (let access_token_expires = timedelta_minutes ACCESS_TOKEN_EXPIRE_MINUTES;
               access_token =
                 create_access_token lib cfg now [(''sub'', JStr (User.email user))]
                   (Some access_token_expires);
               refresh_tok = create_refresh_token lib cfg now [(''sub'', JStr (User.email user))]
           in (Inr [(''access_token'', JStr access_token),
                    (''token_type'', JStr ''bearer''),
                    (''refresh_token'', JStr refresh_tok),
                    (''message'', JStr ''User logged in successfully!''),
                    (''status_code'', JInt 200)],
               session)))"

section \<open>The operations of the system\<close>

text \<open>
  Every function and handler modelled above, as one request type; \<open>run\<close> is the store an
  operation leaves behind. The collaborators of the handlers are gathered in \<open>deps\<close>.
\<close>

record deps =
  dep_lib :: jose
  dep_cfg :: auth_settings
  dep_pwd_context :: CryptContext
  dep_svc :: auth_service
  dep_gravatar :: "string \<Rightarrow> exn + string"
  dep_str :: "exn \<Rightarrow> string"
  dep_now :: datetime
  dep_base_url :: string

datatype operation =
    Op_auth_signup UserModel
  | Op_auth_login OAuth2PasswordRequestForm
  | Op_confirmed_email string
  | Op_request_email RequestEmail
  | Op_verify_user_email string
  | Op_refresh_access_token string
  | Op_routes_signup User
  | Op_routes_login OAuth2PasswordRequestForm
  | Op_update_user_avatar int string
  | Op_create_user UserModel
  | Op_update_token User "string option"
  | Op_confirm_email string
  | Op_update_avatar string string
  | Op_create_new_contact UserContact
  | Op_update_contact int UserContact
  | Op_delete_contact int
  | Op_get_contact int
  | Op_get_upcoming_birthdays User

fun run :: "deps \<Rightarrow> operation \<Rightarrow> db \<Rightarrow> db" where
  "run d (Op_auth_signup body) session =
     snd (snd (auth_signup (dep_svc d) (dep_gravatar d) body [] (dep_base_url d) session))"
| "run d (Op_auth_login body) session = snd (auth_login (dep_svc d) body session)"
| "run d (Op_confirmed_email token) session =
     snd (confirmed_email (dep_svc d) confirm_email token session)"
| "run d (Op_request_email body) session = session"
| "run d (Op_verify_user_email token) session =
     snd (verify_user_email (dep_lib d) (dep_cfg d) (dep_now d) token session)"
| "run d (Op_refresh_access_token token) session = session"
| "run d (Op_routes_signup user) session = snd (routes_signup (dep_pwd_context d) user session)"
| "run d (Op_routes_login form_data) session =
     snd (routes_login (dep_pwd_context d) (dep_lib d) (dep_cfg d) (dep_now d) form_data session)"
| "run d (Op_update_user_avatar uid url) session = snd (update_user_avatar uid url session)"
| "run d (Op_create_user body) session =
     (case create_user (dep_gravatar d) body session of
        Inl e \<Rightarrow> session
      | Inr (new_user, session') \<Rightarrow> session')"
| "run d (Op_update_token user token) session = update_token user token session"
| "run d (Op_confirm_email email_arg) session = snd (confirm_email email_arg session)"
| "run d (Op_update_avatar email_arg url) session = snd (update_avatar email_arg url session)"
| "run d (Op_create_new_contact contact) session =
     snd (contacts_create_new_contact (dep_str d) contact session)"
| "run d (Op_update_contact cid updated_contact) session =
     snd (contacts_update_contact (dep_str d) cid updated_contact session)"
| "run d (Op_delete_contact cid) session = snd (contacts_delete_contact cid session)"
| "run d (Op_get_contact cid) session = session"
| "run d (Op_get_upcoming_birthdays current_user) session = session"

text \<open>
  \<open>flags_kept us vs\<close>: every row of \<open>us\<close> is still there in \<open>vs\<close>, at its position and
  under its key, and a flag that was true is true.
\<close>

fun flags_kept :: "User list \<Rightarrow> User list \<Rightarrow> bool" where
  "flags_kept [] vs = True"
| "flags_kept (u # us) [] = False"
| "flags_kept (u # us) (v # vs) =
     (User.id v = User.id u \<and> (confirmed u \<longrightarrow> confirmed v) \<and> flags_kept us vs)"

section \<open>Sample data\<close>

text \<open>Concrete rows, payloads and stores at which the properties below are evaluated.\<close>

definition sample_str :: "exn \<Rightarrow> string" where
  "sample_str e = (case e of HTTPException c d h \<Rightarrow> d | JWTError \<Rightarrow> ''JWTError''
     | KeyError k \<Rightarrow> k | AttributeError a \<Rightarrow> a | IntegrityError \<Rightarrow> ''IntegrityError''
     | UnknownHashError \<Rightarrow> ''hash could not be identified'')"

definition ann :: Contact where
  "ann = \<lparr>Contact.id = 1, first_name = ''Ann'', last_name = ''Lee'', email = ''ann@x.com'',
          phone_number = ''123'', birth_date = 1000, additional_data = None\<rparr>"

definition bob_payload :: UserContact where
  "bob_payload = \<lparr>contact_id = 1, first_name = ''Bob'', last_name = ''Ray'', email = ''bob@x.com'',
          phone_number = ''456'', birth_date = 2000, additional_info = Some ''friend''\<rparr>"

definition cy_payload :: UserContact where
  "cy_payload = \<lparr>contact_id = 2, first_name = ''Cy'', last_name = ''Orr'', email = ''cy@x.com'',
          phone_number = ''789'', birth_date = 3000, additional_info = None\<rparr>"

definition db_ann :: db where
  "db_ann = \<lparr>users = [], contacts = [ann]\<rparr>"

definition alice :: User where
  "alice = \<lparr>User.id = 1, username = Some ''alice'', email = ''alice@x.com'', password = ''$2b$secret123'',
            refresh_token = Some ''old-refresh'', confirmed = True, avatar = None\<rparr>"

definition carol :: User where
  "carol = \<lparr>User.id = 2, username = Some ''carol'', email = ''carol@x.com'', password = ''not-a-digest'',
            refresh_token = None, confirmed = False, avatar = None\<rparr>"

definition db_users :: db where
  "db_users = \<lparr>users = [alice, carol], contacts = [ann]\<rparr>"

definition dan :: Contact where
  "dan = \<lparr>Contact.id = 2, first_name = ''Dan'', last_name = ''Poe'', email = ''dan@x.com'',
          phone_number = ''321'', birth_date = 1000 - 365 * 86400, additional_data = None\<rparr>"

definition db_bdays :: db where
  "db_bdays = \<lparr>users = [], contacts = [ann, dan]\<rparr>"

text \<open>
  A token library with four readable tokens under the key \<open>secret\<close> and \<open>HS256\<close>; every
  other token, key or algorithm, and every token past its expiry, is a \<open>JWTError\<close>.
\<close>

definition sample_cfg :: auth_settings where
  "sample_cfg = \<lparr>SECRET_KEY = ''secret'', ALGORITHM = ''HS256''\<rparr>"

definition sample_jose :: jose where
  "sample_jose =
     \<lparr>jwt_encode = (\<lambda>claims key algorithm.
        if key = ''secret'' \<and> algorithm = ''HS256''
        then (if claims = [(''sub'', JStr ''alice@x.com''), (''exp'', JInt 2200)]
              then ''access-alice-2200''
              else if claims = [(''sub'', JStr ''alice@x.com''), (''exp'', JInt 605800)]
              then ''refresh-alice-605800''
              else ''other-token'')
        else ''other-token''),
      jwt_decode = (\<lambda>token key algorithms now.
        if key = ''secret'' \<and> ''HS256'' \<in> set algorithms
        then (if token = ''access-alice-2200'' \<and> now \<le> 2200
              then Inr [(''sub'', JStr ''alice@x.com''), (''exp'', JInt 2200)]
              else if token = ''refresh-alice-605800'' \<and> now \<le> 605800
              then Inr [(''sub'', JStr ''alice@x.com''), (''exp'', JInt 605800)]
              else if token = ''confirm-carol'' \<and> now \<le> 605800
              then Inr [(''sub'', JStr ''carol@x.com''), (''exp'', JInt 605800)]
              else if token = ''no-sub'' \<and> now \<le> 605800
              then Inr [(''exp'', JInt 605800)]
              else Inl JWTError)
        else Inl JWTError)\<rparr>"

text \<open>
  A password context that, like passlib's, raises \<open>UnknownHashError\<close> for a stored value
  it cannot identify as a digest (here: one without the bcrypt prefix).
\<close>

definition sample_pwd_context :: CryptContext where
  "sample_pwd_context =
     \<lparr>verify = (\<lambda>secret digest.
        if take 4 digest = ''$2b$'' then Inr (digest = ''$2b$'' @ secret)
        else Inl UnknownHashError),
      hash = (\<lambda>secret. ''$2b$'' @ secret)\<rparr>"

definition sample_svc :: auth_service where
  "sample_svc =
     \<lparr>verify_password = verify sample_pwd_context,
      get_password_hash = hash sample_pwd_context,
      create_access_token = (\<lambda>data. ''access-new''),
      create_refresh_token = (\<lambda>data. ''refresh-new''),
      get_email_from_token = (\<lambda>token.
        if token = ''confirm-carol'' then Inr ''carol@x.com''
        else if token = ''confirm-alice'' then Inr ''alice@x.com''
        else Inl (HTTPException 422 ''Invalid token for email verification'' None))\<rparr>"

definition sample_deps :: deps where
  "sample_deps = \<lparr>dep_lib = sample_jose, dep_cfg = sample_cfg, dep_pwd_context = sample_pwd_context,
     dep_svc = sample_svc, dep_gravatar = (\<lambda>e. Inl (KeyError ''gravatar'')), dep_str = sample_str,
     dep_now = 1000, dep_base_url = ''http://h/''\<rparr>"

definition form_alice :: OAuth2PasswordRequestForm where
  "form_alice = \<lparr>OAuth2PasswordRequestForm.username = ''alice@x.com'', password = ''secret123''\<rparr>"

definition form_alice_wrong :: OAuth2PasswordRequestForm where
  "form_alice_wrong = \<lparr>OAuth2PasswordRequestForm.username = ''alice@x.com'', password = ''guess''\<rparr>"

definition form_nobody :: OAuth2PasswordRequestForm where
  "form_nobody = \<lparr>OAuth2PasswordRequestForm.username = ''nobody@x.com'', password = ''guess''\<rparr>"

definition form_carol :: OAuth2PasswordRequestForm where
  "form_carol = \<lparr>OAuth2PasswordRequestForm.username = ''carol@x.com'', password = ''guess''\<rparr>"

lemmas sample_rows = db_users_def alice_def carol_def ann_def

definition sample_ops :: "operation list" where
  "sample_ops = [Op_confirmed_email ''confirm-carol'', Op_auth_login form_alice,
                 Op_update_avatar ''carol@x.com'' ''http://img/c.png'',
                 Op_confirmed_email ''confirm-carol'', Op_verify_user_email ''confirm-carol'']"

section \<open>Properties of the contact handlers\<close>

lemma find_None_iff_id: "find P xs = None \<longleftrightarrow> (\<forall>x\<in>set xs. \<not> P x)"
  by (induction xs) auto

lemma find_append_new: "\<forall>x\<in>set xs. \<not> P x \<Longrightarrow> P y \<Longrightarrow> find P (xs @ [y]) = Some y"
  by (induction xs) auto

lemma find_filter_out: "find P (filter (\<lambda>x. \<not> P x) xs) = None"
  by (induction xs) auto

lemma find_Some_P: "find P xs = Some x \<Longrightarrow> P x"
  by (induction xs) (auto split: if_splits)

text \<open>
  C7 (update of an absent contact id). The claim asks for a 404 and an unchanged store.
  In both \<open>update_contact\<close> handlers the 404 is raised inside the \<open>try\<close> block whose
  \<open>except Exception\<close> clause catches it: for every id absent from the store and every
  payload the handler raises \<open>HTTPException(500)\<close> with the detail
  \<open>"Internal Server Error: " + str(e)\<close>, \<open>e\<close> being the caught 404; the store is the one
  the handler was given.
\<close>

theorem update_contact_absent_id_raises_500:
  assumes "query_contact cid session = None"
  shows "contacts_update_contact str cid updated_contact session =
           (Inl (HTTPException 500
                  (''Internal Server Error: '' @ str (HTTPException 404 ''Contact not found'' None))
                  None), session)
       \<and> router_endpoints_update_contact str cid updated_contact session current_user =
           (Inl (HTTPException 500
                  (''Internal Server Error: '' @ str (HTTPException 404 ''Contact not found'' None))
                  None), session)"
  using assms
  by (simp add: contacts_update_contact_def router_endpoints_update_contact_def update_contact_try_def)

theorem update_contact_absent_id_raises_500_witness:
  "query_contact 7 db_ann = None
   \<and> contacts_update_contact sample_str 7 bob_payload db_ann =
       (Inl (HTTPException 500 ''Internal Server Error: Contact not found'' None), db_ann)
   \<and> status_code (HTTPException 500 ''Internal Server Error: Contact not found'' None) \<noteq> 404"
proof -
  have h: "query_contact 7 db_ann = None"
    by (simp add: query_contact_def db_ann_def ann_def)
  show ?thesis
    using h update_contact_absent_id_raises_500 [OF h, of sample_str bob_payload]
    by (simp add: sample_str_def)
qed




text \<open>
  C9 (upcoming birthdays). A contact is returned exactly when it is stored and its
  \<open>birth_date\<close> lies in the absolute interval from \<open>today\<close> to \<open>today\<close> plus seven days
  (604800 seconds), both ends included. The comparison is on absolute dates: a contact
  whose birth date would fall in the window only after being moved forward by more than
  the window's length (a whole number of years, for instance) is not returned.
\<close>

theorem birthdays_window:
  "(c \<in> set (get_upcoming_birthdays today session current_user) \<longleftrightarrow>
      c \<in> set (contacts session)
      \<and> today \<le> Contact.birth_date c \<and> Contact.birth_date c \<le> today + 7 * 86400)
   \<and> (\<forall>shift. 7 * 86400 < shift
         \<and> today \<le> Contact.birth_date c + shift \<and> Contact.birth_date c + shift \<le> today + 7 * 86400
         \<longrightarrow> c \<notin> set (get_upcoming_birthdays today session current_user))"
  by (auto simp: get_upcoming_birthdays_def timedelta_days_def Let_def)

theorem birthdays_window_witness:
  "get_upcoming_birthdays 900 db_bdays alice = [ann]
   \<and> 7 * 86400 < (365 * 86400 :: int)
   \<and> 900 \<le> Contact.birth_date dan + 365 * 86400
   \<and> Contact.birth_date dan + 365 * 86400 \<le> 900 + 7 * 86400
   \<and> dan \<notin> set (get_upcoming_birthdays 900 db_bdays alice)"
proof -
  have r: "get_upcoming_birthdays 900 db_bdays alice = [ann]"
    by (simp add: get_upcoming_birthdays_def timedelta_days_def db_bdays_def ann_def dan_def)
  have pre: "7 * 86400 < (365 * 86400 :: int)
     \<and> 900 \<le> Contact.birth_date dan + 365 * 86400
     \<and> Contact.birth_date dan + 365 * 86400 \<le> 900 + 7 * 86400"
    by (simp add: dan_def)
  from birthdays_window [of dan 900 db_bdays alice] pre
  have "dan \<notin> set (get_upcoming_birthdays 900 db_bdays alice)"
    by blast
  with r pre show ?thesis by simp
qed

section \<open>Properties of the handlers of \<open>routes/auth.py\<close>\<close>



section \<open>Properties of the token functions\<close>




text \<open>
  C2 (token refresh). For every token that \<open>jwt.decode\<close> accepts (well-signed, unexpired)
  and whose payload carries a non-null subject \<open>s\<close>, \<open>refresh_access_token\<close> succeeds with
  \<open>token_type = "bearer"\<close> and an access token that is \<open>jwt.encode\<close> of the claims
  \<open>{"sub": s, "exp": now + 20 minutes}\<close> under the configured key and algorithm; where the
  library decodes these claims back from that token, its subject reads \<open>s\<close>. The handler
  succeeds exactly when the token decodes to a payload with a non-null subject: it has no
  session parameter and compares nothing with the stored \<open>refresh_token\<close> column.
\<close>

theorem refresh_access_token_mints_subject:
  "(\<forall>payload s. jwt_decode lib token (SECRET_KEY cfg) [ALGORITHM cfg] now = Inr payload
        \<and> map_of payload ''sub'' = Some s \<and> s \<noteq> JNull \<longrightarrow>
      (let claims = [(''sub'', s), (''exp'', JInt (now + 20 * 60))];
           minted = jwt_encode lib claims (SECRET_KEY cfg) (ALGORITHM cfg)
       in refresh_access_token lib cfg now token
            = Inr [(''access_token'', JStr minted), (''token_type'', JStr ''bearer'')]
          \<and> (jwt_decode lib minted (SECRET_KEY cfg) [ALGORITHM cfg] now = Inr claims \<longrightarrow>
               (\<exists>decoded. verify_token lib cfg now minted = Inr decoded
                  \<and> dict_get decoded ''sub'' = s))))
   \<and> ((\<exists>r. refresh_access_token lib cfg now token = Inr r) \<longleftrightarrow>
       (\<exists>payload. jwt_decode lib token (SECRET_KEY cfg) [ALGORITHM cfg] now = Inr payload
          \<and> dict_get payload ''sub'' \<noteq> JNull))"
proof (intro conjI allI impI)
  fix payload s
  assume a: "jwt_decode lib token (SECRET_KEY cfg) [ALGORITHM cfg] now = Inr payload
        \<and> map_of payload ''sub'' = Some s \<and> s \<noteq> JNull"
  then have t: "refresh_try lib cfg now token = Inr s"
    by (simp add: refresh_try_def verify_token_def except_JWTError_def dict_get_def)
  have mint: "create_access_token lib cfg now [(''sub'', s)]
                 (Some (timedelta_minutes ACCESS_TOKEN_EXPIRE_MINUTES))
      = jwt_encode lib [(''sub'', s), (''exp'', JInt (now + 20 * 60))] (SECRET_KEY cfg) (ALGORITHM cfg)"
    by (simp add: create_access_token_def timedelta_minutes_def ACCESS_TOKEN_EXPIRE_MINUTES_def)
  show "let claims = [(''sub'', s), (''exp'', JInt (now + 20 * 60))];
           minted = jwt_encode lib claims (SECRET_KEY cfg) (ALGORITHM cfg)
       in refresh_access_token lib cfg now token
            = Inr [(''access_token'', JStr minted), (''token_type'', JStr ''bearer'')]
          \<and> (jwt_decode lib minted (SECRET_KEY cfg) [ALGORITHM cfg] now = Inr claims \<longrightarrow>
               (\<exists>decoded. verify_token lib cfg now minted = Inr decoded
                  \<and> dict_get decoded ''sub'' = s))"
    unfolding Let_def
    by (simp add: refresh_access_token_def t except_JWTError_def mint Let_def verify_token_def
        dict_get_def)
next
  show "(\<exists>r. refresh_access_token lib cfg now token = Inr r) \<longleftrightarrow>
       (\<exists>payload. jwt_decode lib token (SECRET_KEY cfg) [ALGORITHM cfg] now = Inr payload
          \<and> dict_get payload ''sub'' \<noteq> JNull)"
    by (auto simp: refresh_access_token_def refresh_try_def verify_token_def except_JWTError_def
        Let_def credentials_exception_def split: sum.splits if_splits)
qed

theorem refresh_access_token_mints_subject_witness:
  "jwt_decode sample_jose ''refresh-alice-605800'' (SECRET_KEY sample_cfg) [ALGORITHM sample_cfg] 1000
        = Inr [(''sub'', JStr ''alice@x.com''), (''exp'', JInt 605800)]
   \<and> refresh_access_token sample_jose sample_cfg 1000 ''refresh-alice-605800''
        = Inr [(''access_token'', JStr ''access-alice-2200''), (''token_type'', JStr ''bearer'')]
   \<and> (\<exists>decoded. verify_token sample_jose sample_cfg 1000 ''access-alice-2200'' = Inr decoded
         \<and> dict_get decoded ''sub'' = JStr ''alice@x.com'')"
proof -
  have d: "jwt_decode sample_jose ''refresh-alice-605800'' (SECRET_KEY sample_cfg) [ALGORITHM sample_cfg] 1000
        = Inr [(''sub'', JStr ''alice@x.com''), (''exp'', JInt 605800)]"
    by (simp add: sample_jose_def sample_cfg_def)
  have m: "map_of [(''sub'', JStr ''alice@x.com''), (''exp'', JInt 605800)] ''sub''
      = Some (JStr ''alice@x.com'') \<and> JStr ''alice@x.com'' \<noteq> JNull"
    by simp
  have e: "jwt_encode sample_jose [(''sub'', JStr ''alice@x.com''), (''exp'', JInt (1000 + 20 * 60))]
             (SECRET_KEY sample_cfg) (ALGORITHM sample_cfg) = ''access-alice-2200''"
    by (simp add: sample_jose_def sample_cfg_def)
  have rt: "jwt_decode sample_jose ''access-alice-2200'' (SECRET_KEY sample_cfg) [ALGORITHM sample_cfg] 1000
      = Inr [(''sub'', JStr ''alice@x.com''), (''exp'', JInt (1000 + 20 * 60))]"
    by (simp add: sample_jose_def sample_cfg_def)
  from refresh_access_token_mints_subject [of sample_jose "''refresh-alice-605800''" sample_cfg 1000] d m
  have "let claims = [(''sub'', JStr ''alice@x.com''), (''exp'', JInt (1000 + 20 * 60))];
           minted = jwt_encode sample_jose claims (SECRET_KEY sample_cfg) (ALGORITHM sample_cfg)
       in refresh_access_token sample_jose sample_cfg 1000 ''refresh-alice-605800''
            = Inr [(''access_token'', JStr minted), (''token_type'', JStr ''bearer'')]
          \<and> (jwt_decode sample_jose minted (SECRET_KEY sample_cfg) [ALGORITHM sample_cfg] 1000 = Inr claims \<longrightarrow>
               (\<exists>decoded. verify_token sample_jose sample_cfg 1000 minted = Inr decoded
                  \<and> dict_get decoded ''sub'' = JStr ''alice@x.com''))"
    by blast
  with e rt d show ?thesis
    unfolding Let_def by simp
qed

section \<open>Properties of the password check\<close>

lemma find_map_same_test:
  "(\<And>x. P (f x) = P x) \<Longrightarrow> find P (map f xs) = map_option f (find P xs)"
  by (induction xs) auto

text \<open>
  C3 as stated fails where the hasher raises. \<open>get_user\<close> calls \<open>pwd_context.verify\<close> with
  no exception handler; with a context that, like passlib's, raises for a stored value it
  cannot identify as a digest, \<open>get_user\<close> raises too instead of returning \<open>None\<close>.
\<close>

theorem get_user_malformed_hash_counterexample:
  "first_user_with (JStr ''carol@x.com'') db_users = Some carol
   \<and> verify sample_pwd_context ''secret123'' (User.password carol) = Inl UnknownHashError
   \<and> get_user sample_pwd_context ''carol@x.com'' ''secret123'' db_users = Inl UnknownHashError
   \<and> get_user sample_pwd_context ''carol@x.com'' ''secret123'' db_users \<noteq> Inr None"
  by (simp add: get_user_def first_user_with_def db_users_def alice_def carol_def
      sample_pwd_context_def)

text \<open>
  C3 (password verification in \<open>get_user\<close>), amended. \<open>get_user(email, password)\<close> returns
  the user exactly when a row with that email exists and \<open>pwd_context.verify\<close> returns
  true for the password and the row's stored hash; it returns \<open>None\<close> exactly when no row
  exists (the hasher is then not called) or \<open>verify\<close> returns false; and it raises exactly
  the exception that \<open>verify\<close> raises on the stored hash.
\<close>

theorem get_user_follows_verify:
  "(get_user pwd_context email_arg password_arg session = Inr (Some user) \<longleftrightarrow>
      first_user_with (JStr email_arg) session = Some user
      \<and> verify pwd_context password_arg (User.password user) = Inr True)
   \<and> (get_user pwd_context email_arg password_arg session = Inr None \<longleftrightarrow>
      first_user_with (JStr email_arg) session = None
      \<or> (\<exists>u. first_user_with (JStr email_arg) session = Some u
            \<and> verify pwd_context password_arg (User.password u) = Inr False))
   \<and> (get_user pwd_context email_arg password_arg session = Inl e \<longleftrightarrow>
      (\<exists>u. first_user_with (JStr email_arg) session = Some u
            \<and> verify pwd_context password_arg (User.password u) = Inl e))"
  by (auto simp: get_user_def split: option.splits sum.splits if_splits)

theorem get_user_follows_verify_witness:
  "get_user sample_pwd_context ''alice@x.com'' ''secret123'' db_users = Inr (Some alice)
   \<and> get_user sample_pwd_context ''alice@x.com'' ''guess'' db_users = Inr None
   \<and> get_user sample_pwd_context ''nobody@x.com'' ''guess'' db_users = Inr None
   \<and> get_user sample_pwd_context ''carol@x.com'' ''guess'' db_users = Inl UnknownHashError"
proof -
  have a: "first_user_with (JStr ''alice@x.com'') db_users = Some alice"
    and c: "first_user_with (JStr ''carol@x.com'') db_users = Some carol"
    and n: "first_user_with (JStr ''nobody@x.com'') db_users = None"
    by (simp_all add: first_user_with_def db_users_def alice_def carol_def)
  have v1: "verify sample_pwd_context ''secret123'' (User.password alice) = Inr True"
    and v2: "verify sample_pwd_context ''guess'' (User.password alice) = Inr False"
    and v3: "verify sample_pwd_context ''guess'' (User.password carol) = Inl UnknownHashError"
    by (simp_all add: sample_pwd_context_def alice_def carol_def)
  have r1: "get_user sample_pwd_context ''alice@x.com'' ''secret123'' db_users = Inr (Some alice)"
    using get_user_follows_verify [of sample_pwd_context "''alice@x.com''" "''secret123''" db_users alice] a v1
    by blast
  have r2: "get_user sample_pwd_context ''alice@x.com'' ''guess'' db_users = Inr None"
    using get_user_follows_verify [of sample_pwd_context "''alice@x.com''" "''guess''" db_users] a v2
    by blast
  have r3: "get_user sample_pwd_context ''nobody@x.com'' ''guess'' db_users = Inr None"
    using get_user_follows_verify [of sample_pwd_context "''nobody@x.com''" "''guess''" db_users] n
    by blast
  have r4: "get_user sample_pwd_context ''carol@x.com'' ''guess'' db_users = Inl UnknownHashError"
    using get_user_follows_verify [of sample_pwd_context "''carol@x.com''" "''guess''" db_users _ UnknownHashError] c v3
    by blast
  from r1 r2 r3 r4 show ?thesis by simp
qed

section \<open>Properties of the login handlers\<close>







section \<open>The confirmation flag\<close>

lemma flags_kept_refl: "flags_kept us us"
  by (induction us) auto

lemma flags_kept_append: "flags_kept us (us @ ws)"
  by (induction us) auto

lemma flags_kept_map:
  "(\<And>u. User.id (f u) = User.id u \<and> (confirmed u \<longrightarrow> confirmed (f u))) \<Longrightarrow> flags_kept us (map f us)"
  by (induction us) auto

lemma flags_kept_trans: "flags_kept us vs \<Longrightarrow> flags_kept vs ws \<Longrightarrow> flags_kept us ws"
proof (induction us vs arbitrary: ws rule: flags_kept.induct)
  case (3 u us v vs)
  then show ?case by (cases ws) auto
qed auto

lemma add_user_kept: "add_user row session = Inr (new_user, session') \<Longrightarrow>
    flags_kept (users session) (users session')"
  by (auto simp: add_user_def Let_def flags_kept_append split: if_splits)

lemma set_confirmed_kept: "flags_kept (users session) (users (set_confirmed user session))"
  by (simp add: set_confirmed_def flags_kept_map)

lemma update_token_kept: "flags_kept (users session) (users (update_token user token session))"
  by (simp add: update_token_def flags_kept_map)

lemma confirm_email_kept: "flags_kept (users session) (users (snd (confirm_email e session)))"
  by (simp add: confirm_email_def flags_kept_refl set_confirmed_kept split: option.splits)

lemma confirm_email_kept_pair:
  "confirm_email e session = (r, session') \<Longrightarrow> flags_kept (users session) (users session')"
  using confirm_email_kept [of session e] by simp

lemma run_kept: "flags_kept (users session) (users (run d op session))"
proof (cases op)
  case (Op_auth_signup body)
  then show ?thesis
    by (auto simp: auth_signup_def create_user_def Let_def flags_kept_refl
        split: option.splits sum.splits dest: add_user_kept)
next
  case (Op_auth_login body)
  then show ?thesis
    by (simp add: auth_login_def Let_def flags_kept_refl update_token_kept
        split: option.splits sum.splits)
next
  case (Op_confirmed_email token)
  then show ?thesis
    by (auto simp: confirmed_email_def flags_kept_refl
        split: option.splits sum.splits prod.splits dest: confirm_email_kept_pair)
next
  case (Op_verify_user_email token)
  then show ?thesis
    by (simp add: verify_user_email_def flags_kept_refl set_confirmed_kept
        split: option.splits sum.splits)
next
  case (Op_routes_signup user)
  then show ?thesis
    by (auto simp: routes_signup_def Let_def flags_kept_refl
        split: option.splits sum.splits dest: add_user_kept)
next
  case (Op_routes_login form_data)
  then show ?thesis
    by (simp add: routes_login_def Let_def flags_kept_refl split: option.splits sum.splits)
next
  case (Op_update_user_avatar uid url)
  then show ?thesis
    by (simp add: update_user_avatar_def flags_kept_refl flags_kept_map split: option.splits)
next
  case (Op_create_user body)
  then show ?thesis
    by (auto simp: create_user_def Let_def flags_kept_refl
        split: option.splits sum.splits dest: add_user_kept)
next
  case (Op_update_token user token)
  then show ?thesis by (simp add: update_token_kept)
next
  case (Op_confirm_email e)
  then show ?thesis by (simp add: confirm_email_kept)
next
  case (Op_update_avatar e url)
  then show ?thesis
    by (simp add: update_avatar_def flags_kept_refl flags_kept_map split: option.splits)
next
  case (Op_create_new_contact contact)
  then show ?thesis
    by (simp add: contacts_create_new_contact_def add_contact_def flags_kept_refl)
next
  case (Op_update_contact cid c)
  then show ?thesis
    by (simp add: contacts_update_contact_def update_contact_try_def assign_contact_def
        flags_kept_refl split: option.splits)
next
  case (Op_delete_contact cid)
  then show ?thesis
    by (simp add: contacts_delete_contact_def delete_row_def flags_kept_refl split: option.splits)
qed (simp_all add: flags_kept_refl)

lemma fold_run_kept: "flags_kept (users session) (users (fold (run d) ops session))"
proof (induction ops arbitrary: session)
  case Nil
  show ?case by (simp add: flags_kept_refl)
next
  case (Cons op ops)
  have "flags_kept (users session) (users (run d op session))" by (rule run_kept)
  moreover have "flags_kept (users (run d op session)) (users (fold (run d) ops (run d op session)))"
    by (rule Cons.IH)
  ultimately show ?case by (auto intro: flags_kept_trans)
qed

lemma first_user_with_set_confirmed:
  "first_user_with claim session = Some user \<Longrightarrow>
   first_user_with claim (set_confirmed user session) = Some (user\<lparr>confirmed := True\<rparr>)"
proof -
  assume u: "first_user_with claim session = Some user"
  let ?f = "\<lambda>x. if User.id x = User.id user then x\<lparr>confirmed := True\<rparr> else x"
  have "find (\<lambda>x. JStr (User.email x) = claim) (map ?f (users session))
      = map_option ?f (find (\<lambda>x. JStr (User.email x) = claim) (users session))"
    by (rule find_map_same_test) simp
  with u show ?thesis
    by (simp add: first_user_with_def set_confirmed_def)
qed

lemma get_user_by_email_set_confirmed:
  "get_user_by_email e session = Some user \<Longrightarrow>
   get_user_by_email e (set_confirmed user session) = Some (user\<lparr>confirmed := True\<rparr>)"
proof -
  assume u: "get_user_by_email e session = Some user"
  let ?f = "\<lambda>x. if User.id x = User.id user then x\<lparr>confirmed := True\<rparr> else x"
  have "find (\<lambda>x. User.email x = e) (map ?f (users session))
      = map_option ?f (find (\<lambda>x. User.email x = e) (users session))"
    by (rule find_map_same_test) simp
  with u show ?thesis
    by (simp add: get_user_by_email_def set_confirmed_def)
qed

lemma verify_user_email_found:
  assumes "jwt_decode lib token (SECRET_KEY cfg) [ALGORITHM cfg] now = Inr payload"
    and "map_of payload ''sub'' = Some claim" and "claim \<noteq> JNull"
    and "first_user_with claim session = Some user"
  shows "verify_user_email lib cfg now token session
    = (Inr [(''message'', JStr ''Email verification successful!''), (''status_code'', JInt 200)],
       if \<not> confirmed user then set_confirmed user session else session)"
  using assms
  by (simp add: verify_user_email_def subject_try_def subscript_def except_JWTError_def)

lemma confirmed_email_found:
  assumes "get_email_from_token svc token = Inr e"
    and "get_user_by_email e session = Some user"
  shows "confirmed_email svc confirm_email token session
    = (if confirmed user
       then (Inr [(''message'', JStr ''Your email is already confirmed''), (''status_code'', JInt 200)],
             session)
       else (Inr [(''message'', JStr ''Email confirmed'')], set_confirmed user session))"
  using assms
  by (simp add: confirmed_email_def confirm_email_def)

lemma confirmed_email_already:
  assumes "get_email_from_token svc token = Inr e"
    and "get_user_by_email e session = Some user" and "confirmed user"
  shows "confirmed_email svc repository_confirmed_email token session
    = (Inr [(''message'', JStr ''Your email is already confirmed''), (''status_code'', JInt 200)],
       session)"
  using assms
  by (simp add: confirmed_email_def)



end
